theory Spec2Isabelle
  imports Main "HOL-Library.Sublist" "HOL-Library.Char_ord" "HOL-Library.List_Lexorder"
    "HOL-Library.Product_Lexorder"
begin

section \<open>Python values and strings\<close>

text \<open>
  A Python \<open>str\<close> is a sequence of code points. The model writes it as a \<open>string\<close> and
  reads each \<open>char\<close> as the code point of the same number, so it covers the strings whose
  code points lie below 256 (the range of an HTTP request line as \<open>http.server\<close> decodes
  it). The string functions below are the Python ones restricted to that range.
\<close>

type_synonym pystr = string

definition dq :: char where
  "dq = char_of (34::nat)"

definition sq :: char where
  "sq = char_of (39::nat)"

definition code_point :: "char \<Rightarrow> nat" where
  "code_point c = of_char c"

text \<open>\<open>str.startswith(prefix)\<close>.\<close>

definition startswith :: "pystr \<Rightarrow> pystr \<Rightarrow> bool" where
  "startswith s p \<longleftrightarrow> prefix p s"

text \<open>
  \<open>str.isspace\<close> on one character, as \<open>str.strip()\<close> uses it: the code points
  9 to 13, 28 to 32, 133 and 160.
\<close>

definition is_space :: "char \<Rightarrow> bool" where
  "is_space c \<longleftrightarrow> code_point c \<in> {9, 10, 11, 12, 13, 28, 29, 30, 31, 32, 133, 160}"

text \<open>\<open>s.lstrip(chars)\<close>, \<open>s.rstrip()\<close> and \<open>s.strip()\<close>.\<close>

definition lstrip_chars :: "pystr \<Rightarrow> pystr \<Rightarrow> pystr" where
  "lstrip_chars chars s = dropWhile (\<lambda>c. c \<in> set chars) s"

definition strip :: "pystr \<Rightarrow> pystr" where
  "strip s = rev (dropWhile is_space (rev (dropWhile is_space s)))"

section \<open>Percent-encoding: \<open>urllib.parse.quote\<close>\<close>






section \<open>SearchGenerator\<close>

text \<open>
  \<open>generate_all\<close> returns a dict of dicts of strings; both levels are association lists in
  the order in which the source fills them. The third parameter \<open>company\<close> of the source
  is never read and is left out.
\<close>

type_synonym url_dict = "(pystr \<times> pystr) list"





section \<open>More of the Python library\<close>

text \<open>\<open>str(n)\<close> for an integer: its decimal digits, with a minus sign when negative.\<close>

fun str_nat :: "nat \<Rightarrow> pystr" where
  "str_nat n = (if n < 10 then [char_of (48 + n)]
     else str_nat (n div 10) @ [char_of (48 + n mod 10)])"

declare str_nat.simps [simp del]

definition str_int :: "int \<Rightarrow> pystr" where
  "str_int i = (if i < 0 then CHR ''-'' # str_nat (nat (- i)) else str_nat (nat i))"

text \<open>\<open>s.split('/')[-1]\<close>: what follows the last slash, the whole of \<open>s\<close> without one.\<close>

definition last_segment :: "pystr \<Rightarrow> pystr" where
  "last_segment s = rev (takeWhile (\<lambda>c. c \<noteq> CHR ''/'') (rev s))"

text \<open>
  \<open>repr(s)\<close> of a string: single quotes unless the string has a single quote and no
  double quote; the quote character and the backslash are escaped, tab, newline and
  carriage return are written \<open>\t\<close>, \<open>\n\<close>, \<open>\r\<close>, and every other non-printable
  character (below 32, 127 to 160, 173) as \<open>\xNN\<close> in lower-case hexadecimal.
\<close>

definition bs :: char where
  "bs = char_of (92::nat)"

definition hex_lower :: "nat \<Rightarrow> char" where
  "hex_lower d = (if d < 10 then char_of (48 + d) else char_of (87 + d))"

definition printable :: "char \<Rightarrow> bool" where
  "printable c \<longleftrightarrow> (let n = code_point c in (32 \<le> n \<and> n < 127) \<or> (161 \<le> n \<and> n \<noteq> 173))"

definition repr_char :: "char \<Rightarrow> char \<Rightarrow> pystr" where
  "repr_char q c = (let n = code_point c in
     if c = q \<or> c = bs then [bs, c]
     else if n = 9 then [bs, CHR ''t'']
     else if n = 10 then [bs, CHR ''n'']
     else if n = 13 then [bs, CHR ''r'']
     else if \<not> printable c then [bs, CHR ''x'', hex_lower (n div 16), hex_lower (n mod 16)]
     else [c])"

definition py_repr :: "pystr \<Rightarrow> pystr" where
  "py_repr s = (let q = (if sq \<in> set s \<and> dq \<notin> set s then dq else sq)
     in [q] @ concat (map (repr_char q) s) @ [q])"

text \<open>
  \<open>int(s)\<close> for a string, base 10. White space (the code points 9 to 13, 32, 133 and
  160) is skipped on both sides; one sign may follow; then come decimal digits, where
  single underscores may stand between two digits. More than 4300 digits are refused
  (the interpreter's default limit). A failure is a \<open>ValueError\<close>; the model returns its
  text, which is what \<open>str(e)\<close> gives.
\<close>

definition int_space :: "char \<Rightarrow> bool" where
  "int_space c \<longleftrightarrow> code_point c \<in> {9, 10, 11, 12, 13, 32, 133, 160}"

definition is_digit :: "char \<Rightarrow> bool" where
  "is_digit c \<longleftrightarrow> 48 \<le> code_point c \<and> code_point c \<le> 57"

definition digit_or_underscore :: "char \<Rightarrow> bool" where
  "digit_or_underscore c \<longleftrightarrow> is_digit c \<or> c = CHR ''_''"

definition int_of_digits :: "pystr \<Rightarrow> int" where
  "int_of_digits ds = foldl (\<lambda>a c. 10 * a + (int (code_point c) - 48)) 0 ds"

definition invalid_literal :: "pystr \<Rightarrow> pystr" where
  "invalid_literal s = ''invalid literal for int() with base 10: '' @ take 200 (py_repr s)"

definition exceeds_limit :: "nat \<Rightarrow> pystr" where
  "exceeds_limit n = ''Exceeds the limit (4300 digits) for integer string conversion: value has ''
     @ str_nat n @ '' digits; use sys.set_int_max_str_digits() to increase the limit''"

definition py_int :: "pystr \<Rightarrow> pystr + int" where
  "py_int s =
    (let t = dropWhile int_space s;
         neg = (t \<noteq> [] \<and> hd t = CHR ''-'');
         u = (if t \<noteq> [] \<and> (hd t = CHR ''-'' \<or> hd t = CHR ''+'') then tl t else t);
         run = takeWhile digit_or_underscore u;
         rest = dropWhile digit_or_underscore u;
         ds = filter is_digit run
     in if run = [] \<or> hd run = CHR ''_'' \<or> last run = CHR ''_'' \<or> sublist ''__'' run
          then Inl (invalid_literal s)
        else if 4300 < length ds then Inl (exceeds_limit (length ds))
        else if dropWhile int_space rest \<noteq> [] then Inl (invalid_literal s)
        else Inr ((if neg then - 1 else 1) * int_of_digits ds))"

text \<open>
  The values a JSON document decodes to, which are also the values the handlers pass on
  to the managers. Floating-point numbers are left out.
\<close>

datatype pyval =
    PNone
  | PBool bool
  | PInt int
  | PStr pystr
  | PList "pyval list"
  | PDict "(pystr \<times> pyval) list"

datatype exn =
    AttributeError
  | IndexError
  | ValueError
  | OverflowError
  | ProgrammingError
  | OperationalError
  | IntegrityError

text \<open>\<open>d.get(key, default)\<close> on the items of a dict.\<close>

definition get :: "(pystr \<times> pyval) list \<Rightarrow> pystr \<Rightarrow> pyval \<Rightarrow> pyval" where
  "get items k dflt = (case map_of items k of Some v \<Rightarrow> v | None \<Rightarrow> dflt)"

section \<open>Database\<close>

text \<open>
  The store is an SQLite file with five tables, created by \<open>_init_tables\<close>. A stored
  value is NULL, an integer or a text; a row is what \<open>dict(row)\<close> gives, the column names
  with their values. Every table has \<open>id INTEGER PRIMARY KEY AUTOINCREMENT\<close>: a table
  remembers the largest id it has given out (\<open>seq\<close>, SQLite's \<open>sqlite_sequence\<close>), and a
  new row gets an id above that and above every id present. The model does not bound
  ids by \<open>2^63 - 1\<close> when it hands them out. The connection never switches foreign-key
  enforcement on, and SQLite's default is off, so the \<open>FOREIGN KEY\<close> clause of
  \<open>findings\<close> constrains nothing and has no counterpart here.
\<close>

datatype sqlval = SNull | SInt int | SText pystr

type_synonym row = "(pystr \<times> sqlval) list"

record table =
  rows :: "row list"
  seq :: int

datatype tbl = T_subjects | T_twitter_accounts | T_news_sources | T_findings | T_user_contacts

type_synonym database = "tbl \<Rightarrow> table"

definition init_db :: database where
  "init_db = (\<lambda>t. \<lparr>rows = [], seq = 0\<rparr>)"

datatype coltype = TEXT | INTEGER

datatype column =
  Column (col_name: pystr) (col_type: coltype) (not_null: bool) (is_unique: bool)
    (col_default: sqlval)

definition text_col :: "pystr \<Rightarrow> column" where
  "text_col n = Column n TEXT False False SNull"

text \<open>The columns of each table after \<open>id\<close>, as the \<open>CREATE TABLE\<close> statements list them.\<close>

fun schema :: "tbl \<Rightarrow> column list" where
  "schema T_subjects =
     [Column ''name_en'' TEXT True False SNull,
      text_col ''name_fa'',
      text_col ''aliases'',
      text_col ''location_spotted'',
      text_col ''country'',
      text_col ''event_description'',
      text_col ''linkedin_url'',
      text_col ''linkedin_headline'',
      text_col ''linkedin_companies'',
      text_col ''linkedin_education'',
      text_col ''twitter_url'',
      Column ''sanctions_checked'' INTEGER False False (SInt 0),
      text_col ''sanctions_hits'',
      Column ''risk_level'' TEXT False False (SText ''Unknown''),
      text_col ''risk_indicators'',
      Column ''status'' TEXT False False (SText ''New''),
      text_col ''notes'',
      Column ''created_at'' TEXT True False SNull,
      text_col ''updated_at'']"
| "schema T_twitter_accounts =
     [Column ''username'' TEXT True True SNull,
      text_col ''display_name'',
      text_col ''description'',
      text_col ''category'',
      Column ''is_active'' INTEGER False False (SInt 1),
      Column ''created_at'' TEXT True False SNull]"
| "schema T_news_sources =
     [Column ''name'' TEXT True False SNull,
      Column ''url'' TEXT True True SNull,
      text_col ''description'',
      text_col ''category'',
      Column ''language'' TEXT False False (SText ''en''),
      Column ''is_active'' INTEGER False False (SInt 1),
      Column ''created_at'' TEXT True False SNull]"
| "schema T_findings =
     [Column ''title'' TEXT True False SNull,
      text_col ''finding_type'',
      text_col ''description'',
      text_col ''source_url'',
      text_col ''source_name'',
      Column ''subject_id'' INTEGER False False SNull,
      text_col ''tags'',
      Column ''importance'' TEXT False False (SText ''Medium''),
      Column ''verified'' INTEGER False False (SInt 0),
      text_col ''notes'',
      Column ''created_at'' TEXT True False SNull,
      text_col ''updated_at'']"
| "schema T_user_contacts =
     [Column ''name'' TEXT True False SNull,
      text_col ''contact_type'',
      text_col ''email'',
      text_col ''phone'',
      text_col ''url'',
      text_col ''description'',
      text_col ''notes'',
      Column ''created_at'' TEXT True False SNull]"

text \<open>\<open>row[column]\<close>; a column the row lacks reads as NULL.\<close>

definition cell :: "row \<Rightarrow> pystr \<Rightarrow> sqlval" where
  "cell r k = (case map_of r k of Some v \<Rightarrow> v | None \<Rightarrow> SNull)"

definition in_int64 :: "int \<Rightarrow> bool" where
  "in_int64 i \<longleftrightarrow> - (2 ^ 63) \<le> i \<and> i < 2 ^ 63"

text \<open>
  Binding a Python value to a \<open>?\<close> placeholder: \<open>None\<close> is NULL, a bool is the integer 1
  or 0, an integer must fit 64 bits (else \<open>OverflowError\<close>), a string is a text, and a
  list or a dict cannot be bound (\<open>sqlite3.ProgrammingError\<close>).
\<close>

fun bind :: "pyval \<Rightarrow> exn + sqlval" where
  "bind PNone = Inr SNull"
| "bind (PBool b) = Inr (SInt (if b then 1 else 0))"
| "bind (PInt i) = (if in_int64 i then Inr (SInt i) else Inl OverflowError)"
| "bind (PStr s) = Inr (SText s)"
| "bind (PList _) = Inl ProgrammingError"
| "bind (PDict _) = Inl ProgrammingError"

fun bind_all :: "pyval list \<Rightarrow> exn + sqlval list" where
  "bind_all [] = Inr []"
| "bind_all (v # vs) =
     (case bind v of Inl e \<Rightarrow> Inl e
      | Inr x \<Rightarrow> (case bind_all vs of Inl e \<Rightarrow> Inl e | Inr xs \<Rightarrow> Inr (x # xs)))"

text \<open>
  Column affinity: a TEXT column stores an integer as its decimal text. The managers
  write only integers and NULL to INTEGER columns, which that affinity leaves as they are;
  a text written there is kept unchanged by the model.
\<close>

fun affinity :: "coltype \<Rightarrow> sqlval \<Rightarrow> sqlval" where
  "affinity TEXT (SInt i) = SText (str_int i)"
| "affinity _ v = v"

definition ids :: "table \<Rightarrow> int list" where
  "ids tb = concat (map (\<lambda>r. case cell r ''id'' of SInt i \<Rightarrow> [i] | _ \<Rightarrow> []) (rows tb))"

definition next_id :: "table \<Rightarrow> int" where
  "next_id tb = fold max (ids tb) (seq tb) + 1"

definition make_row :: "column list \<Rightarrow> (pystr \<times> sqlval) list \<Rightarrow> int \<Rightarrow> row" where
  "make_row cols given new_id =
     (''id'', SInt new_id) #
     map (\<lambda>c. (col_name c,
            (case map_of given (col_name c) of
               Some v \<Rightarrow> affinity (col_type c) v
             | None \<Rightarrow> col_default c))) cols"

definition violates_not_null :: "column list \<Rightarrow> row \<Rightarrow> bool" where
  "violates_not_null cols r \<longleftrightarrow> (\<exists>c \<in> set cols. not_null c \<and> cell r (col_name c) = SNull)"

definition violates_unique :: "column list \<Rightarrow> row \<Rightarrow> row list \<Rightarrow> bool" where
  "violates_unique cols r old \<longleftrightarrow>
     (\<exists>c \<in> set cols. is_unique c \<and> cell r (col_name c) \<noteq> SNull \<and>
        (\<exists>r' \<in> set old. cell r' (col_name c) = cell r (col_name c)))"

text \<open>
  \<open>Database.insert(table, data)\<close>: the statement names the keys of \<open>data\<close> as columns
  (a name the table lacks fails when the statement is prepared), the values are bound,
  and the row is checked against \<open>NOT NULL\<close> and \<open>UNIQUE\<close>. An exception leaves the
  database as it was. No caller supplies \<open>id\<close>; the model refuses it like an unknown
  column.
\<close>

definition Database_insert ::
  "tbl \<Rightarrow> (pystr \<times> pyval) list \<Rightarrow> database \<Rightarrow> exn + (int \<times> database)" where
  "Database_insert t data db =
    (if \<not> set (map fst data) \<subseteq> set (map col_name (schema t)) then Inl OperationalError
     else case bind_all (map snd data) of
       Inl e \<Rightarrow> Inl e
     | Inr vs \<Rightarrow>
         (let new_id = next_id (db t);
              r = make_row (schema t) (zip (map fst data) vs) new_id
          in if violates_not_null (schema t) r \<or> violates_unique (schema t) r (rows (db t))
             then Inl IntegrityError
             else Inr (new_id, db(t := \<lparr>rows = rows (db t) @ [r], seq = new_id\<rparr>))))"

text \<open>\<open>Database.delete(table, record_id)\<close>: \<open>DELETE FROM table WHERE id = ?\<close>.\<close>

definition Database_delete :: "tbl \<Rightarrow> int \<Rightarrow> database \<Rightarrow> exn + database" where
  "Database_delete t record_id db =
    (if in_int64 record_id
     then Inr (db(t := (db t)\<lparr>rows := filter (\<lambda>r. cell r ''id'' \<noteq> SInt record_id) (rows (db t))\<rparr>))
     else Inl OverflowError)"

text \<open>\<open>Database.count(table)\<close>: \<open>SELECT COUNT(*)\<close>.\<close>

definition Database_count :: "tbl \<Rightarrow> database \<Rightarrow> int" where
  "Database_count t db = int (length (rows (db t)))"


text \<open>
  SQLite orders NULL before integers before texts, integers by value and texts by their
  bytes. \<open>ORDER BY column DESC\<close> is a sort on that order; SQL leaves the order of rows
  with equal keys open, and the model fixes one.
\<close>

definition sql_order :: "sqlval \<Rightarrow> nat \<times> int \<times> pystr" where
  "sql_order v = (case v of SNull \<Rightarrow> (0, 0, []) | SInt i \<Rightarrow> (1, i, []) | SText s \<Rightarrow> (2, 0, s))"

definition order_by_desc :: "pystr \<Rightarrow> row list \<Rightarrow> row list" where
  "order_by_desc col rs = rev (sort_key (\<lambda>r. sql_order (cell r col)) rs)"


section \<open>Managers\<close>

text \<open>
  A manager method takes the database and returns its result with the database after the
  call, or the exception it raises (the database is then unchanged). The time stamp
  \<open>datetime.now(timezone.utc).isoformat()\<close> is the parameter \<open>now\<close>. The dicts the
  methods return are \<open>PDict\<close> values.
\<close>

type_synonym 'a result = "exn + ('a \<times> database)"

subsection \<open>SubjectManager\<close>

definition SubjectManager_add ::
  "database \<Rightarrow> pystr \<Rightarrow> pyval \<Rightarrow> pyval \<Rightarrow> pyval \<Rightarrow> pyval \<Rightarrow> pyval \<Rightarrow> pyval result" where
  "SubjectManager_add db now name_en name_fa location event notes =
    (case Database_insert T_subjects
        [(''name_en'', name_en), (''name_fa'', name_fa),
         (''location_spotted'', location), (''event_description'', event),
         (''notes'', notes), (''status'', PStr ''New''), (''risk_level'', PStr ''Unknown''),
         (''created_at'', PStr now)] db of
       Inl e \<Rightarrow> Inl e
     | Inr (subject_id, db') \<Rightarrow>
         Inr (PDict [(''status'', PStr ''success''), (''id'', PInt subject_id),
                     (''name'', name_en)], db'))"




definition SubjectManager_delete :: "database \<Rightarrow> int \<Rightarrow> pyval result" where
  "SubjectManager_delete db subject_id =
    (case Database_delete T_subjects subject_id db of
       Inl e \<Rightarrow> Inl e
     | Inr db' \<Rightarrow> Inr (PDict [(''status'', PStr ''success''), (''id'', PInt subject_id)], db'))"

text \<open>
  \<open>get_statistics\<close> returns a dict with the keys \<open>total\<close>, \<open>by_status\<close> and \<open>by_risk\<close>;
  the two groupings are dicts from the column's values to counts.
\<close>

record statistics =
  total :: int
  by_status :: "(sqlval \<times> int) list"
  by_risk :: "(sqlval \<times> int) list"


subsection \<open>MonitorManager\<close>

definition MAX_TWITTER :: int where
  "MAX_TWITTER = 10"

definition MAX_NEWS :: int where
  "MAX_NEWS = 10"

definition error_dict :: "pystr \<Rightarrow> pyval" where
  "error_dict message = PDict [(''status'', PStr ''error''), (''message'', PStr message)]"

text \<open>
  \<open>add_twitter\<close> signals a full table and a known username by returning an error dict,
  not by raising. A username that is not a string has no \<open>lstrip\<close>.
\<close>

definition exists_where :: "tbl \<Rightarrow> pystr \<Rightarrow> pystr \<Rightarrow> database \<Rightarrow> bool" where
  "exists_where t col v db \<longleftrightarrow> (\<exists>r \<in> set (rows (db t)). cell r col = SText v)"

definition MonitorManager_add_twitter :: "database \<Rightarrow> pystr \<Rightarrow> pyval \<Rightarrow> pyval \<Rightarrow> pyval result" where
  "MonitorManager_add_twitter db now username description =
    (case username of
       PStr u \<Rightarrow>
         (let username' = strip (lstrip_chars ''@'' u)
          in if Database_count T_twitter_accounts db \<ge> MAX_TWITTER
             then Inr (error_dict (''Maximum '' @ str_int MAX_TWITTER @ '' accounts reached''), db)
             else if exists_where T_twitter_accounts ''username'' username' db
             then Inr (error_dict ''Account already exists'', db)
             else (case Database_insert T_twitter_accounts
                      [(''username'', PStr username'), (''description'', description),
                       (''is_active'', PInt 1), (''created_at'', PStr now)] db of
                     Inl e \<Rightarrow> Inl e
                   | Inr (aid, db') \<Rightarrow>
                       Inr (PDict [(''status'', PStr ''success''), (''id'', PInt aid),
                                   (''username'', PStr username')], db')))
     | _ \<Rightarrow> Inl AttributeError)"

definition active :: "row list \<Rightarrow> row list" where
  "active rs = filter (\<lambda>r. cell r ''is_active'' = SInt 1) rs"

definition MonitorManager_get_twitter :: "database \<Rightarrow> row list" where
  "MonitorManager_get_twitter db =
     order_by_desc ''created_at'' (active (rows (db T_twitter_accounts)))"

definition MonitorManager_delete_twitter :: "database \<Rightarrow> int \<Rightarrow> pyval result" where
  "MonitorManager_delete_twitter db aid =
    (case Database_delete T_twitter_accounts aid db of
       Inl e \<Rightarrow> Inl e
     | Inr db' \<Rightarrow> Inr (PDict [(''status'', PStr ''success'')], db'))"

definition MonitorManager_add_news ::
  "database \<Rightarrow> pystr \<Rightarrow> pyval \<Rightarrow> pyval \<Rightarrow> pyval \<Rightarrow> pyval result" where
  "MonitorManager_add_news db now name url description =
    (case url of
       PStr u \<Rightarrow>
         (let url' = (if \<not> (startswith u ''http://'' \<or> startswith u ''https://'')
                      then ''https://'' @ u else u)
          in if Database_count T_news_sources db \<ge> MAX_NEWS
             then Inr (error_dict (''Maximum '' @ str_int MAX_NEWS @ '' sources reached''), db)
             else if exists_where T_news_sources ''url'' url' db
             then Inr (error_dict ''Source already exists'', db)
             else (case Database_insert T_news_sources
                      [(''name'', name), (''url'', PStr url'), (''description'', description),
                       (''is_active'', PInt 1), (''created_at'', PStr now)] db of
                     Inl e \<Rightarrow> Inl e
                   | Inr (sid, db') \<Rightarrow>
                       Inr (PDict [(''status'', PStr ''success''), (''id'', PInt sid),
                                   (''name'', name)], db')))
     | _ \<Rightarrow> Inl AttributeError)"


definition MonitorManager_delete_news :: "database \<Rightarrow> int \<Rightarrow> pyval result" where
  "MonitorManager_delete_news db sid =
    (case Database_delete T_news_sources sid db of
       Inl e \<Rightarrow> Inl e
     | Inr db' \<Rightarrow> Inr (PDict [(''status'', PStr ''success'')], db'))"

subsection \<open>FindingsManager\<close>

definition FindingsManager_add ::
  "database \<Rightarrow> pystr \<Rightarrow> pyval \<Rightarrow> pyval \<Rightarrow> pyval \<Rightarrow> pyval \<Rightarrow> pyval \<Rightarrow> int option \<Rightarrow> pyval \<Rightarrow> pyval
     \<Rightarrow> pyval result" where
  "FindingsManager_add db now title finding_type description source_url source_name subject_id
      tags importance =
    (case Database_insert T_findings
        [(''title'', title), (''finding_type'', finding_type), (''description'', description),
         (''source_url'', source_url), (''source_name'', source_name),
         (''subject_id'', (case subject_id of None \<Rightarrow> PNone | Some i \<Rightarrow> PInt i)),
         (''tags'', tags), (''importance'', importance), (''verified'', PInt 0),
         (''created_at'', PStr now)] db of
       Inl e \<Rightarrow> Inl e
     | Inr (fid, db') \<Rightarrow>
         Inr (PDict [(''status'', PStr ''success''), (''id'', PInt fid), (''title'', title)], db'))"




definition FindingsManager_delete :: "database \<Rightarrow> int \<Rightarrow> pyval result" where
  "FindingsManager_delete db fid =
    (case Database_delete T_findings fid db of
       Inl e \<Rightarrow> Inl e
     | Inr db' \<Rightarrow> Inr (PDict [(''status'', PStr ''success'')], db'))"

subsection \<open>ContactsManager\<close>

definition ContactsManager_add ::
  "database \<Rightarrow> pystr \<Rightarrow> pyval \<Rightarrow> pyval \<Rightarrow> pyval \<Rightarrow> pyval \<Rightarrow> pyval \<Rightarrow> pyval result" where
  "ContactsManager_add db now name contact_type email url description =
    (case Database_insert T_user_contacts
        [(''name'', name), (''contact_type'', contact_type), (''email'', email),
         (''url'', url), (''description'', description), (''created_at'', PStr now)] db of
       Inl e \<Rightarrow> Inl e
     | Inr (cid, db') \<Rightarrow>
         Inr (PDict [(''status'', PStr ''success''), (''id'', PInt cid), (''name'', name)], db'))"


definition ContactsManager_delete :: "database \<Rightarrow> int \<Rightarrow> pyval result" where
  "ContactsManager_delete db cid =
    (case Database_delete T_user_contacts cid db of
       Inl e \<Rightarrow> Inl e
     | Inr db' \<Rightarrow> Inr (PDict [(''status'', PStr ''success'')], db'))"

section \<open>RequestHandler\<close>

text \<open>
  \<open>send_json(data, status)\<close> sends the status line, the headers and \<open>json.dumps(data)\<close>;
  a response is recorded as the status with the data handed to \<open>send_json\<close>.
  \<open>send_html\<close> sends the dashboard page with status 200, and an unknown route gets
  \<open>send_response(404)\<close> with no body. A handler that raises sends nothing.
\<close>

datatype payload =
    Val pyval
  | Row row
  | Rows "row list"
  | Stats statistics
  | Urls "(pystr \<times> url_dict) list"

datatype response = Json nat payload | Html | Empty nat

datatype outcome = Responded response | Crashed exn

definition send_json :: "payload \<Rightarrow> outcome" where
  "send_json data = Responded (Json 200 data)"

definition send_json_status :: "payload \<Rightarrow> nat \<Rightarrow> outcome" where
  "send_json_status data status = Responded (Json status data)"

definition error_payload :: "pystr \<Rightarrow> payload" where
  "error_payload message = Val (PDict [(''error'', PStr message)])"


definition delete_by_id ::
  "(database \<Rightarrow> int \<Rightarrow> pyval result) \<Rightarrow> database \<Rightarrow> pystr \<Rightarrow> outcome \<times> database" where
  "delete_by_id manager_delete db path =
    (case py_int (last_segment path) of
       Inl _ \<Rightarrow> (send_json_status (error_payload ''Invalid ID'') 400, db)
     | Inr i \<Rightarrow>
         (case manager_delete db i of
            Inl _ \<Rightarrow> (send_json_status (error_payload ''Invalid ID'') 400, db)
          | Inr (r, db') \<Rightarrow> (send_json (Val r), db')))"




text \<open>
  \<open>do_POST\<close> compares \<open>self.path\<close> as it was sent. The body is absent (no or zero
  \<open>Content-Length\<close>, read as \<open>{}\<close>), or it decodes to a value, or the header or the
  body cannot be decoded (a \<open>ValueError\<close>, raised before any route is looked at).
  \<open>data.get\<close> needs \<open>data\<close> to be a dict. Nothing in \<open>do_POST\<close> catches an exception.
\<close>

datatype request_body = NoBody | BadBody | Parsed pyval

definition returned :: "pyval result \<Rightarrow> database \<Rightarrow> outcome \<times> database" where
  "returned r db = (case r of Inl e \<Rightarrow> (Crashed e, db) | Inr (v, db') \<Rightarrow> (send_json (Val v), db'))"

definition post_route :: "database \<Rightarrow> pystr \<Rightarrow> pystr \<Rightarrow> (pystr \<times> pyval) list \<Rightarrow> outcome \<times> database" where
  "post_route db now path d =
    (if path = ''/api/subjects'' then
       returned (SubjectManager_add db now
         (get d ''name_en'' (PStr '''')) (get d ''name_fa'' (PStr ''''))
         (get d ''location'' (PStr '''')) (get d ''event'' (PStr ''''))
         (get d ''notes'' (PStr ''''))) db
     else if path = ''/api/monitor/twitter'' then
       returned (MonitorManager_add_twitter db now
         (get d ''username'' (PStr '''')) (get d ''description'' (PStr ''''))) db
     else if path = ''/api/monitor/news'' then
       returned (MonitorManager_add_news db now
         (get d ''name'' (PStr '''')) (get d ''url'' (PStr ''''))
         (get d ''description'' (PStr ''''))) db
     else if path = ''/api/findings'' then
       returned (FindingsManager_add db now
         (get d ''title'' (PStr '''')) (get d ''finding_type'' (PStr ''''))
         (get d ''description'' (PStr '''')) (get d ''source_url'' (PStr ''''))
         (get d ''source_name'' (PStr '''')) None
         (get d ''tags'' (PStr '''')) (get d ''importance'' (PStr ''Medium''))) db
     else if path = ''/api/contacts'' then
       returned (ContactsManager_add db now
         (get d ''name'' (PStr '''')) (get d ''contact_type'' (PStr ''''))
         (get d ''email'' (PStr '''')) (get d ''url'' (PStr ''''))
         (get d ''description'' (PStr ''''))) db
     else (Responded (Empty 404), db))"

definition known_post_paths :: "pystr list" where
  "known_post_paths =
     [''/api/subjects'', ''/api/monitor/twitter'', ''/api/monitor/news'', ''/api/findings'',
      ''/api/contacts'']"

definition do_POST :: "database \<Rightarrow> pystr \<Rightarrow> pystr \<Rightarrow> request_body \<Rightarrow> outcome \<times> database" where
  "do_POST db now path body =
    (case body of
       BadBody \<Rightarrow> (Crashed ValueError, db)
     | NoBody \<Rightarrow> post_route db now path []
     | Parsed (PDict d) \<Rightarrow> post_route db now path d
     | Parsed _ \<Rightarrow>
         (if path \<in> set known_post_paths then (Crashed AttributeError, db)
          else (Responded (Empty 404), db)))"



definition do_DELETE :: "database \<Rightarrow> pystr \<Rightarrow> outcome \<times> database" where
  "do_DELETE db path =
    (if startswith path ''/api/subjects/'' then delete_by_id SubjectManager_delete db path
     else if startswith path ''/api/monitor/twitter/'' then
       delete_by_id MonitorManager_delete_twitter db path
     else if startswith path ''/api/monitor/news/'' then
       delete_by_id MonitorManager_delete_news db path
     else if startswith path ''/api/findings/'' then delete_by_id FindingsManager_delete db path
     else if startswith path ''/api/contacts/'' then delete_by_id ContactsManager_delete db path
     else (Responded (Empty 404), db))"

section \<open>Runs and readings\<close>

text \<open>What a call returned, and the database it left behind (the old one after an exception).\<close>

definition returned_value :: "'a result \<Rightarrow> 'a option" where
  "returned_value r = (case r of Inl e \<Rightarrow> None | Inr (v, db') \<Rightarrow> Some v)"


text \<open>
  The requests that write: a POST with its time stamp, path and body, and a DELETE with its
  path. \<open>serve\<close> gives the database after the handler has run, and \<open>serve_all\<close> handles a
  sequence of requests one after the other.
\<close>

datatype request = POST pystr pystr request_body | DELETE pystr

fun serve :: "database \<Rightarrow> request \<Rightarrow> database" where
  "serve db (POST now path body) = snd (do_POST db now path body)"
| "serve db (DELETE path) = snd (do_DELETE db path)"

definition serve_all :: "database \<Rightarrow> request list \<Rightarrow> database" where
  "serve_all db reqs = foldl serve db reqs"





section \<open>The search generator\<close>













section \<open>The database\<close>

text \<open>A new id lies above the stored sequence value and above every id in the table.\<close>

lemma fold_max_ge: "a \<le> fold max xs (a::int)"
  by (induction xs arbitrary: a) (auto intro: order_trans[OF max.cobounded2])

lemma fold_max_mem: "x \<in> set xs \<Longrightarrow> x \<le> fold max xs (a::int)"
proof (induction xs arbitrary: a)
  case Nil then show ?case by simp
next
  case (Cons y ys)
  show ?case
  proof (cases "x = y")
    case True
    have "y \<le> max y a" by simp
    also have "\<dots> \<le> fold max ys (max y a)" by (rule fold_max_ge)
    finally show ?thesis using True by simp
  next
    case False
    with Cons show ?thesis by simp
  qed
qed


lemma next_id_above_seq: "seq tb < next_id tb"
  using fold_max_ge [of "seq tb" "ids tb"] by (simp add: next_id_def)

lemma next_id_above_ids: "i \<in> set (ids tb) \<Longrightarrow> i < next_id tb"
  using fold_max_mem [of i "ids tb" "seq tb"] by (simp add: next_id_def)

text \<open>A successful insert appends one row to its table and touches nothing else.\<close>

lemma Database_insert_cases:
  assumes "Database_insert t data db = Inr (i, db')"
  shows "i = next_id (db t)
     \<and> (\<exists>vs. bind_all (map snd data) = Inr vs
          \<and> db' = db(t := \<lparr>rows = rows (db t) @ [make_row (schema t) (zip (map fst data) vs) i],
                          seq = i\<rparr>))"
  using assms
  by (auto simp: Database_insert_def Let_def split: if_splits sum.splits)

section \<open>Subjects\<close>




lemma rows_init: "rows (init_db t) = []"
  by (simp add: init_db_def)



section \<open>Monitored accounts and sources\<close>

lemma str_int_10: "str_int 10 = ''10''"
  by code_simp

lemma length_order_by_desc: "length (order_by_desc col rs) = length rs"
  by (simp add: order_by_desc_def)

lemma set_order_by_desc: "set (order_by_desc col rs) = set rs"
  by (simp add: order_by_desc_def)

lemma length_get_twitter:
  "length (MonitorManager_get_twitter db) \<le> length (rows (db T_twitter_accounts))"
  by (simp add: MonitorManager_get_twitter_def length_order_by_desc active_def)

lemma Database_insert_other:
  "Database_insert t data db = Inr (i, db') \<Longrightarrow> t' \<noteq> t \<Longrightarrow> db' t' = db t'"
  by (auto dest!: Database_insert_cases)

lemma Database_insert_length:
  "Database_insert t data db = Inr (i, db') \<Longrightarrow>
     length (rows (db' t)) = Suc (length (rows (db t)))"
  by (auto dest!: Database_insert_cases)

lemma Database_delete_length:
  "Database_delete t i db = Inr db' \<Longrightarrow> length (rows (db' t')) \<le> length (rows (db t'))"
  by (auto simp: Database_delete_def split: if_splits)

lemma Database_delete_other:
  "Database_delete t i db = Inr db' \<Longrightarrow> t' \<noteq> t \<Longrightarrow> db' t' = db t'"
  by (auto simp: Database_delete_def split: if_splits)

text \<open>A full table refuses every username that is a string.\<close>

lemma add_twitter_full:
  assumes "10 \<le> length (rows (db T_twitter_accounts))"
  shows "MonitorManager_add_twitter db now (PStr u) d =
           Inr (error_dict ''Maximum 10 accounts reached'', db)"
  using assms
  by (simp add: MonitorManager_add_twitter_def Let_def Database_count_def MAX_TWITTER_def
      str_int_10)

text \<open>The table never grows beyond ten rows, whatever the manager is called with.\<close>

lemma add_twitter_bound:
  assumes "MonitorManager_add_twitter db now username d = Inr (v, db')"
    and "length (rows (db T_twitter_accounts)) \<le> 10"
  shows "length (rows (db' T_twitter_accounts)) \<le> 10"
proof (cases username)
  case (PStr u)
  show ?thesis
  proof (cases "10 \<le> length (rows (db T_twitter_accounts))")
    case True
    then show ?thesis
      using assms PStr by (simp add: add_twitter_full)
  next
    case False
    then have lt: "length (rows (db T_twitter_accounts)) < 10" by simp
    from assms(1) PStr False show ?thesis
      using lt
      by (auto simp: MonitorManager_add_twitter_def Let_def Database_count_def MAX_TWITTER_def
          split: if_splits sum.splits dest!: Database_insert_length)
  qed
qed (use assms in \<open>simp_all add: MonitorManager_add_twitter_def\<close>)


lemma add_news_twitter_rows:
  "MonitorManager_add_news db now name url d = Inr (v, db') \<Longrightarrow>
     db' T_twitter_accounts = db T_twitter_accounts"
  by (cases url)
    (auto simp: MonitorManager_add_news_def Let_def split: if_splits sum.splits
      dest!: Database_insert_other [where t' = T_twitter_accounts])

lemma subject_add_twitter_rows:
  "SubjectManager_add db now a b c d e = Inr (v, db') \<Longrightarrow>
     db' T_twitter_accounts = db T_twitter_accounts"
  by (auto simp: SubjectManager_add_def split: sum.splits
      dest!: Database_insert_other [where t' = T_twitter_accounts])

lemma findings_add_twitter_rows:
  "FindingsManager_add db now a b c d e f g h = Inr (v, db') \<Longrightarrow>
     db' T_twitter_accounts = db T_twitter_accounts"
  by (auto simp: FindingsManager_add_def split: sum.splits
      dest!: Database_insert_other [where t' = T_twitter_accounts])

lemma contacts_add_twitter_rows:
  "ContactsManager_add db now a b c d e = Inr (v, db') \<Longrightarrow>
     db' T_twitter_accounts = db T_twitter_accounts"
  by (auto simp: ContactsManager_add_def split: sum.splits
      dest!: Database_insert_other [where t' = T_twitter_accounts])

lemma returned_bound:
  assumes "returned r db = (out, db')"
    and "\<And>v. r = Inr (v, db') \<Longrightarrow> length (rows (db' T_twitter_accounts)) \<le> 10"
    and "length (rows (db T_twitter_accounts)) \<le> 10"
  shows "length (rows (db' T_twitter_accounts)) \<le> 10"
  using assms by (auto simp: returned_def split: sum.splits)

lemma post_route_bound:
  assumes "post_route db now path d = (out, db')"
    and "length (rows (db T_twitter_accounts)) \<le> 10"
  shows "length (rows (db' T_twitter_accounts)) \<le> 10"
proof -
  consider (s) "path = ''/api/subjects''" | (t) "path = ''/api/monitor/twitter''"
    | (n) "path = ''/api/monitor/news''" | (f) "path = ''/api/findings''"
    | (c) "path = ''/api/contacts''"
    | (o) "path \<notin> set known_post_paths"
    by (auto simp: known_post_paths_def)
  then show ?thesis
  proof cases
    case s
    with assms show ?thesis
      by (auto simp: post_route_def elim!: returned_bound dest: subject_add_twitter_rows)
  next
    case t
    with assms show ?thesis
      by (auto simp: post_route_def elim!: returned_bound dest: add_twitter_bound)
  next
    case n
    with assms show ?thesis
      by (auto simp: post_route_def elim!: returned_bound dest: add_news_twitter_rows)
  next
    case f
    with assms show ?thesis
      by (auto simp: post_route_def elim!: returned_bound dest: findings_add_twitter_rows)
  next
    case c
    with assms show ?thesis
      by (auto simp: post_route_def elim!: returned_bound dest: contacts_add_twitter_rows)
  next
    case o
    with assms show ?thesis
      by (auto simp: post_route_def known_post_paths_def)
  qed
qed

lemma do_POST_bound:
  assumes "do_POST db now path body = (out, db')"
    and "length (rows (db T_twitter_accounts)) \<le> 10"
  shows "length (rows (db' T_twitter_accounts)) \<le> 10"
proof (cases body)
  case (Parsed v)
  with assms show ?thesis
    by (cases v) (auto simp: do_POST_def split: if_splits dest: post_route_bound)
qed (use assms in \<open>auto simp: do_POST_def dest: post_route_bound\<close>)

lemma delete_by_id_bound:
  assumes "delete_by_id m db path = (out, db')"
    and "\<And>i v. m db i = Inr (v, db') \<Longrightarrow>
           length (rows (db' T_twitter_accounts)) \<le> length (rows (db T_twitter_accounts))"
    and "length (rows (db T_twitter_accounts)) \<le> 10"
  shows "length (rows (db' T_twitter_accounts)) \<le> 10"
  using assms
  by (fastforce simp: delete_by_id_def split: sum.splits prod.splits)

lemma manager_delete_length:
  "SubjectManager_delete db i = Inr (v, db') \<Longrightarrow>
     length (rows (db' t)) \<le> length (rows (db t))"
  "MonitorManager_delete_twitter db i = Inr (v, db') \<Longrightarrow>
     length (rows (db' t)) \<le> length (rows (db t))"
  "MonitorManager_delete_news db i = Inr (v, db') \<Longrightarrow>
     length (rows (db' t)) \<le> length (rows (db t))"
  "FindingsManager_delete db i = Inr (v, db') \<Longrightarrow>
     length (rows (db' t)) \<le> length (rows (db t))"
  "ContactsManager_delete db i = Inr (v, db') \<Longrightarrow>
     length (rows (db' t)) \<le> length (rows (db t))"
  by (auto simp: SubjectManager_delete_def MonitorManager_delete_twitter_def
      MonitorManager_delete_news_def FindingsManager_delete_def ContactsManager_delete_def
      split: sum.splits dest: Database_delete_length)

lemma do_DELETE_bound:
  assumes "do_DELETE db path = (out, db')"
    and "length (rows (db T_twitter_accounts)) \<le> 10"
  shows "length (rows (db' T_twitter_accounts)) \<le> 10"
  using assms
  by (auto simp: do_DELETE_def split: if_splits
      elim!: delete_by_id_bound dest: manager_delete_length)

lemma serve_bound:
  "length (rows (db T_twitter_accounts)) \<le> 10 \<Longrightarrow>
     length (rows (serve db req T_twitter_accounts)) \<le> 10"
proof (cases req)
  case (POST now path body)
  assume "length (rows (db T_twitter_accounts)) \<le> 10"
  then show ?thesis
    using do_POST_bound [of db now path body "fst (do_POST db now path body)"
        "snd (do_POST db now path body)"] POST by simp
next
  case (DELETE path)
  assume "length (rows (db T_twitter_accounts)) \<le> 10"
  then show ?thesis
    using do_DELETE_bound [of db path "fst (do_DELETE db path)" "snd (do_DELETE db path)"]
      DELETE by simp
qed

lemma serve_all_bound:
  "length (rows (db T_twitter_accounts)) \<le> 10 \<Longrightarrow>
     length (rows (serve_all db reqs T_twitter_accounts)) \<le> 10"
  unfolding serve_all_def
  by (induction reqs arbitrary: db) (simp_all add: serve_bound)

text \<open>
  Claim C3. With ten or more active Twitter accounts \<open>add_twitter\<close> returns the capacity
  error and leaves the database as it was, for every username that is a string; and
  whatever POST and DELETE requests are served from the empty database, the active
  accounts never number more than ten.
\<close>

theorem add_twitter_capacity:
  "(10 \<le> length (MonitorManager_get_twitter db) \<longrightarrow>
      MonitorManager_add_twitter db now (PStr u) d =
        Inr (error_dict ''Maximum 10 accounts reached'', db))
   \<and> length (MonitorManager_get_twitter (serve_all init_db reqs)) \<le> 10"
proof
  show "10 \<le> length (MonitorManager_get_twitter db) \<longrightarrow>
      MonitorManager_add_twitter db now (PStr u) d =
        Inr (error_dict ''Maximum 10 accounts reached'', db)"
    using length_get_twitter [of db] by (auto intro!: add_twitter_full)
  have "length (rows (serve_all init_db reqs T_twitter_accounts)) \<le> 10"
    by (rule serve_all_bound) (simp add: rows_init)
  then show "length (MonitorManager_get_twitter (serve_all init_db reqs)) \<le> 10"
    using length_get_twitter [of "serve_all init_db reqs"] by linarith
qed

lemma ten_accounts:
  "length (MonitorManager_get_twitter (serve_all init_db
      (map (\<lambda>c. POST ''2026-01-01T00:00:00+00:00'' ''/api/monitor/twitter''
              (Parsed (PDict [(''username'', PStr [c])]))) ''abcdefghij''))) = 10"
  by code_simp

theorem add_twitter_capacity_witness:
  "returned_value (MonitorManager_add_twitter
      (serve_all init_db
        (map (\<lambda>c. POST ''2026-01-01T00:00:00+00:00'' ''/api/monitor/twitter''
                (Parsed (PDict [(''username'', PStr [c])]))) ''abcdefghij''))
      ''2026-01-02T00:00:00+00:00'' (PStr ''eleventh'') (PStr ''''))
    = Some (error_dict ''Maximum 10 accounts reached'')"
  using add_twitter_capacity [of "serve_all init_db
        (map (\<lambda>c. POST ''2026-01-01T00:00:00+00:00'' ''/api/monitor/twitter''
                (Parsed (PDict [(''username'', PStr [c])]))) ''abcdefghij'')"
      "''2026-01-02T00:00:00+00:00''" "''eleventh''" "PStr ''''" "[]"] ten_accounts
  by (simp add: returned_value_def)


text \<open>The row \<open>add_twitter\<close> writes for a new username.\<close>

lemma insert_twitter:
  assumes "\<not> exists_where T_twitter_accounts ''username'' u db"
  shows "Database_insert T_twitter_accounts
           [(''username'', PStr u), (''description'', PStr d), (''is_active'', PInt 1),
            (''created_at'', PStr now)] db =
         Inr (next_id (db T_twitter_accounts),
           db(T_twitter_accounts := \<lparr>rows = rows (db T_twitter_accounts) @
              [[(''id'', SInt (next_id (db T_twitter_accounts))), (''username'', SText u),
                (''display_name'', SNull), (''description'', SText d), (''category'', SNull),
                (''is_active'', SInt 1), (''created_at'', SText now)]],
              seq = next_id (db T_twitter_accounts)\<rparr>))"
  using assms
  by (simp add: Database_insert_def Let_def make_row_def text_col_def violates_not_null_def
      violates_unique_def cell_def exists_where_def in_int64_def)

lemma add_twitter_new:
  assumes "length (rows (db T_twitter_accounts)) < 10"
    and "\<not> exists_where T_twitter_accounts ''username'' (strip (lstrip_chars ''@'' u)) db"
  shows "MonitorManager_add_twitter db now (PStr u) (PStr d) =
     Inr (PDict [(''status'', PStr ''success''), (''id'', PInt (next_id (db T_twitter_accounts))),
                 (''username'', PStr (strip (lstrip_chars ''@'' u)))],
          db(T_twitter_accounts := \<lparr>rows = rows (db T_twitter_accounts) @
              [[(''id'', SInt (next_id (db T_twitter_accounts))),
                (''username'', SText (strip (lstrip_chars ''@'' u))),
                (''display_name'', SNull), (''description'', SText d), (''category'', SNull),
                (''is_active'', SInt 1), (''created_at'', SText now)]],
              seq = next_id (db T_twitter_accounts)\<rparr>))"
  using assms
  by (simp add: MonitorManager_add_twitter_def Let_def Database_count_def MAX_TWITTER_def
      insert_twitter)






section \<open>News sources\<close>







section \<open>The HTTP interface\<close>

text \<open>An error dict comes back from the two tests before the insert only.\<close>

lemma add_twitter_error:
  assumes "MonitorManager_add_twitter db now username description = Inr (error_dict m, db')"
  shows "db' = db \<and> (m = ''Maximum 10 accounts reached'' \<or> m = ''Account already exists'')"
  using assms
  by (auto simp: MonitorManager_add_twitter_def Let_def error_dict_def MAX_TWITTER_def str_int_10
      split: pyval.splits if_splits sum.splits)

lemma add_news_error:
  assumes "MonitorManager_add_news db now name url description = Inr (error_dict m, db')"
  shows "db' = db \<and> (m = ''Maximum 10 sources reached'' \<or> m = ''Source already exists'')"
  using assms
  by (auto simp: MonitorManager_add_news_def Let_def error_dict_def MAX_NEWS_def str_int_10
      split: pyval.splits if_splits sum.splits)

lemma do_POST_dict:
  assumes "body = NoBody \<and> d = [] \<or> body = Parsed (PDict d)"
  shows "do_POST db now path body = post_route db now path d"
  using assms by (auto simp: do_POST_def)

lemma post_route_twitter:
  "post_route db now ''/api/monitor/twitter'' d =
     returned (MonitorManager_add_twitter db now
         (get d ''username'' (PStr '''')) (get d ''description'' (PStr ''''))) db"
  by (simp add: post_route_def)

lemma post_route_news:
  "post_route db now ''/api/monitor/news'' d =
     returned (MonitorManager_add_news db now
         (get d ''name'' (PStr '''')) (get d ''url'' (PStr ''''))
         (get d ''description'' (PStr ''''))) db"
  by (simp add: post_route_def)

lemma returned_cases:
  "(\<exists>v db'. returned r db = (Responded (Json 200 (Val v)), db'))
   \<or> (\<exists>e. returned r db = (Crashed e, db))"
  by (auto simp: returned_def send_json_def split: sum.splits)

text \<open>
  Claim C6. A POST to \<open>/api/monitor/twitter\<close> or \<open>/api/monitor/news\<close> whose manager call
  returns an error dict (which it does for a full table and for a known entry, and for
  nothing else, leaving the database as it was) is answered with status 200 and that dict,
  \<open>{status: "error", message}\<close>. On these two paths the handler sends no other status
  than 200: it answers 200 or an exception ends it before any response.
\<close>

theorem monitor_errors_answered_200:
  assumes "body = NoBody \<and> d = [] \<or> body = Parsed (PDict d)"
  shows "(MonitorManager_add_twitter db now (get d ''username'' (PStr ''''))
             (get d ''description'' (PStr '''')) = Inr (error_dict m, db')
          \<longrightarrow> do_POST db now ''/api/monitor/twitter'' body =
                (Responded (Json 200 (Val (PDict [(''status'', PStr ''error''),
                                                  (''message'', PStr m)]))), db)
              \<and> db' = db
              \<and> (m = ''Maximum 10 accounts reached'' \<or> m = ''Account already exists''))
       \<and> (MonitorManager_add_news db now (get d ''name'' (PStr ''''))
             (get d ''url'' (PStr '''')) (get d ''description'' (PStr ''''))
               = Inr (error_dict m, db')
          \<longrightarrow> do_POST db now ''/api/monitor/news'' body =
                (Responded (Json 200 (Val (PDict [(''status'', PStr ''error''),
                                                  (''message'', PStr m)]))), db)
              \<and> db' = db
              \<and> (m = ''Maximum 10 sources reached'' \<or> m = ''Source already exists''))
       \<and> (path = ''/api/monitor/twitter'' \<or> path = ''/api/monitor/news''
          \<longrightarrow> (\<exists>v db''. do_POST db now path body = (Responded (Json 200 (Val v)), db''))
              \<or> (\<exists>e. do_POST db now path body = (Crashed e, db)))"
proof (intro conjI impI)
  assume a: "MonitorManager_add_twitter db now (get d ''username'' (PStr ''''))
             (get d ''description'' (PStr '''')) = Inr (error_dict m, db')"
  from add_twitter_error [OF a]
  show "db' = db"
    and "m = ''Maximum 10 accounts reached'' \<or> m = ''Account already exists''"
    by simp_all
  then show "do_POST db now ''/api/monitor/twitter'' body =
                (Responded (Json 200 (Val (PDict [(''status'', PStr ''error''),
                                                  (''message'', PStr m)]))), db)"
    unfolding do_POST_dict [OF assms] post_route_twitter a
    by (simp add: returned_def send_json_def error_dict_def)
next
  assume a: "MonitorManager_add_news db now (get d ''name'' (PStr ''''))
             (get d ''url'' (PStr '''')) (get d ''description'' (PStr ''''))
               = Inr (error_dict m, db')"
  from add_news_error [OF a]
  show "db' = db"
    and "m = ''Maximum 10 sources reached'' \<or> m = ''Source already exists''"
    by simp_all
  then show "do_POST db now ''/api/monitor/news'' body =
                (Responded (Json 200 (Val (PDict [(''status'', PStr ''error''),
                                                  (''message'', PStr m)]))), db)"
    unfolding do_POST_dict [OF assms] post_route_news a
    by (simp add: returned_def send_json_def error_dict_def)
next
  assume "path = ''/api/monitor/twitter'' \<or> path = ''/api/monitor/news''"
  then show "(\<exists>v db''. do_POST db now path body = (Responded (Json 200 (Val v)), db''))
              \<or> (\<exists>e. do_POST db now path body = (Crashed e, db))"
  proof
    assume "path = ''/api/monitor/twitter''"
    then show ?thesis
      unfolding do_POST_dict [OF assms]
      by (simp only: post_route_twitter returned_cases)
  next
    assume "path = ''/api/monitor/news''"
    then show ?thesis
      unfolding do_POST_dict [OF assms]
      by (simp only: post_route_news returned_cases)
  qed
qed

text \<open>The claim at the eleventh account, and at a source sent twice.\<close>

lemma eleventh_account:
  "MonitorManager_add_twitter
      (serve_all init_db
        (map (\<lambda>c. POST ''2026-01-01T00:00:00+00:00'' ''/api/monitor/twitter''
                (Parsed (PDict [(''username'', PStr [c])]))) ''abcdefghij''))
      ''2026-01-02T00:00:00+00:00''
      (get [(''username'', PStr ''eleventh'')] ''username'' (PStr ''''))
      (get [(''username'', PStr ''eleventh'')] ''description'' (PStr ''''))
   = Inr (error_dict ''Maximum 10 accounts reached'',
      serve_all init_db
        (map (\<lambda>c. POST ''2026-01-01T00:00:00+00:00'' ''/api/monitor/twitter''
                (Parsed (PDict [(''username'', PStr [c])]))) ''abcdefghij''))"
proof -
  let ?db = "serve_all init_db
        (map (\<lambda>c. POST ''2026-01-01T00:00:00+00:00'' ''/api/monitor/twitter''
                (Parsed (PDict [(''username'', PStr [c])]))) ''abcdefghij'')"
  have "10 \<le> length (rows (?db T_twitter_accounts))"
    using ten_accounts length_get_twitter [of ?db] by (simp only:)
  then have "MonitorManager_add_twitter ?db ''2026-01-02T00:00:00+00:00'' (PStr ''eleventh'')
      (PStr '''') = Inr (error_dict ''Maximum 10 accounts reached'', ?db)"
    by (rule add_twitter_full)
  moreover have "get [(''username'', PStr ''eleventh'')] ''username'' (PStr '''')
      = PStr ''eleventh''"
    and "get [(''username'', PStr ''eleventh'')] ''description'' (PStr '''') = PStr ''''"
    by (simp_all add: get_def)
  ultimately show ?thesis
    by (simp only:)
qed

theorem monitor_errors_answered_200_witness:
  "do_POST
      (serve_all init_db
        (map (\<lambda>c. POST ''2026-01-01T00:00:00+00:00'' ''/api/monitor/twitter''
                (Parsed (PDict [(''username'', PStr [c])]))) ''abcdefghij''))
      ''2026-01-02T00:00:00+00:00'' ''/api/monitor/twitter''
      (Parsed (PDict [(''username'', PStr ''eleventh'')]))
   = (Responded (Json 200 (Val (PDict [(''status'', PStr ''error''),
         (''message'', PStr ''Maximum 10 accounts reached'')]))),
      serve_all init_db
        (map (\<lambda>c. POST ''2026-01-01T00:00:00+00:00'' ''/api/monitor/twitter''
                (Parsed (PDict [(''username'', PStr [c])]))) ''abcdefghij''))"
  using monitor_errors_answered_200 [of "Parsed (PDict [(''username'', PStr ''eleventh'')])"
      "[(''username'', PStr ''eleventh'')]"
      "serve_all init_db
        (map (\<lambda>c. POST ''2026-01-01T00:00:00+00:00'' ''/api/monitor/twitter''
                (Parsed (PDict [(''username'', PStr [c])]))) ''abcdefghij'')"
      "''2026-01-02T00:00:00+00:00''" "''Maximum 10 accounts reached''"
      "serve_all init_db
        (map (\<lambda>c. POST ''2026-01-01T00:00:00+00:00'' ''/api/monitor/twitter''
                (Parsed (PDict [(''username'', PStr [c])]))) ''abcdefghij'')"
      "''/api/monitor/twitter''"]
    eleventh_account
  by simp

section \<open>Routes with an id\<close>










end
